theory Spec2Isabelle
  imports Complex_Main
begin

section \<open>The span locator of the notebook\<close>

text \<open>
  The notebook \<^verbatim>\<open>vsm_04_contextualreps.ipynb\<close> defines one function of its own:
  \<^verbatim>\<open>
  def find_sublist_indices(sublist, mainlist):
      indices = []
      length = len(sublist)
      for i in range(0, len(mainlist)-length+1):
          if mainlist[i: i+length] == sublist:
              indices.append((i, i+length))
      return indices
  \<close>
  Both arguments are Python lists here, as in the notebook's own example call
  \<^verbatim>\<open>find_sublist_indices([1,2], [1, 2, 3, 0, 1, 2, 3])\<close>; the comparison is then
  equality of sequences. The elements are left polymorphic. (The call of the same
  function on tensors, in the aggregated approach, is modelled further down.)
\<close>

text \<open>
  The slice \<^verbatim>\<open>xs[i: j]\<close> for \<open>0 \<le> i\<close> and \<open>0 \<le> j\<close>. Python clips a slice at the end
  of the list and never raises; an empty or inverted range gives the empty list.
\<close>

definition slice :: "'a list \<Rightarrow> nat \<Rightarrow> nat \<Rightarrow> 'a list" where
  "slice xs i j = take (j - i) (drop i xs)"

text \<open>
  \<^verbatim>\<open>range(0, n)\<close> for a Python integer \<open>n\<close>, which may be zero or negative: then the
  range is empty.
\<close>

definition range0 :: "int \<Rightarrow> nat list" where
  "range0 n = [0..<nat n]"

text \<open>
  The body of the \<^verbatim>\<open>for\<close> loop, run over the remaining values of \<open>i\<close>, with the list
  \<open>indices\<close> passed along; \<open>len\<close> is the source's local \<^verbatim>\<open>length\<close>.
\<close>

fun find_loop ::
  "'a list \<Rightarrow> 'a list \<Rightarrow> nat \<Rightarrow> nat list \<Rightarrow> (nat \<times> nat) list \<Rightarrow> (nat \<times> nat) list"
where
  "find_loop sublist mainlist len [] indices = indices"
| "find_loop sublist mainlist len (i # rest) indices =
     find_loop sublist mainlist len rest
       (if slice mainlist i (i + len) = sublist
        then indices @ [(i, i + len)]
        else indices)"

definition find_sublist_indices :: "'a list \<Rightarrow> 'a list \<Rightarrow> (nat \<times> nat) list" where
  "find_sublist_indices sublist mainlist =
     (let len = length sublist
      in find_loop sublist mainlist len
           (range0 (int (length mainlist) - int len + 1)) [])"

subsection \<open>The span locator as the specification words it\<close>

text \<open>
  The target \<open>t\<close> occurs in the haystack \<open>h\<close> at start position \<open>i\<close>: the span fits
  and the haystack carries the target's elements there, position by position.
\<close>

definition occurs_at :: "'a list \<Rightarrow> 'a list \<Rightarrow> nat \<Rightarrow> bool" where
  "occurs_at t h i \<longleftrightarrow>
     i + length t \<le> length h \<and> (\<forall>k \<in> {..<length t}. h ! (i + k) = t ! k)"

text \<open>
  The start positions \<open>0\<close> through \<open>len(h) - len(t)\<close>, a difference of integers: there
  is none when the target is longer than the haystack.
\<close>

definition start_positions :: "'a list \<Rightarrow> 'a list \<Rightarrow> nat list" where
  "start_positions t h = map nat [0 .. int (length h) - int (length t)]"

definition spec_spans :: "'a list \<Rightarrow> 'a list \<Rightarrow> (nat \<times> nat) list" where
  "spec_spans t h =
     map (\<lambda>i. (i, i + length t)) (filter (occurs_at t h) (start_positions t h))"

section \<open>Numbers, vectors and sequence representations\<close>

text \<open>
  A component of a tensor is a floating-point number. It is a real number here
  (rounding and overflow are not modelled) or not-a-number, which is what the tensor
  library computes for the mean of no numbers at all.
\<close>

datatype scalar = Num real | NaN

type_synonym vec = "scalar list"

text \<open>Addition, maximum and minimum; not-a-number propagates through all three.\<close>

fun scalar_add :: "scalar \<Rightarrow> scalar \<Rightarrow> scalar" where
  "scalar_add (Num a) (Num b) = Num (a + b)"
| "scalar_add NaN y = NaN"
| "scalar_add x NaN = NaN"

fun scalar_max :: "scalar \<Rightarrow> scalar \<Rightarrow> scalar" where
  "scalar_max (Num a) (Num b) = Num (max a b)"
| "scalar_max NaN y = NaN"
| "scalar_max x NaN = NaN"

fun scalar_min :: "scalar \<Rightarrow> scalar \<Rightarrow> scalar" where
  "scalar_min (Num a) (Num b) = Num (min a b)"
| "scalar_min NaN y = NaN"
| "scalar_min x NaN = NaN"

definition scalar_sum :: "scalar list \<Rightarrow> scalar" where
  "scalar_sum xs = fold (\<lambda>x s. scalar_add s x) xs (Num 0)"

text \<open>
  \<^verbatim>\<open>torch.mean\<close> of a list of numbers: their sum divided by their count. Of no numbers
  it is not-a-number (zero divided by zero); no exception is raised.
\<close>

definition mean_of :: "scalar list \<Rightarrow> scalar" where
  "mean_of xs =
     (if xs = [] then NaN
      else case scalar_sum xs of NaN \<Rightarrow> NaN | Num s \<Rightarrow> Num (s / real (length xs)))"

text \<open>
  A sequence representation is a tensor of shape \<^verbatim>\<open>[1, T, D]\<close> (the notebook records
  \<^verbatim>\<open>torch.Size([1, 6, 768])\<close>): \<open>T\<close> token vectors of dimension \<open>D\<close>. The leading
  batch axis of size one is left out. A tensor knows its shape also when \<open>T = 0\<close>, so
  the dimension is a field of its own.
\<close>

record seqrep =
  width :: nat
  rows :: "vec list"

text \<open>
  The records that stand for a tensor: every token vector has the stated dimension.
\<close>

definition is_tensor :: "seqrep \<Rightarrow> bool" where
  "is_tensor r = list_all (\<lambda>v. length v = width r) (rows r)"

text \<open>The numbers at component \<open>j\<close>, along the token axis.\<close>

definition column :: "vec list \<Rightarrow> nat \<Rightarrow> scalar list" where
  "column vs j = map (\<lambda>v. v ! j) vs"

text \<open>The slice \<^verbatim>\<open>reps[:, start: end]\<close> of the token axis; the dimension stays.\<close>

definition slice_tokens :: "seqrep \<Rightarrow> nat \<Rightarrow> nat \<Rightarrow> seqrep" where
  "slice_tokens reps start stop = reps\<lparr>rows := slice (rows reps) start stop\<rparr>"

section \<open>Pooling functions\<close>

text \<open>
  The failures: \<open>InvalidInput\<close> and \<open>DimensionMismatch\<close> are the specification's, for
  the pooling functions; \<open>RuntimeError\<close> is the exception the tensor library raises.
\<close>

datatype error = InvalidInput | DimensionMismatch | RuntimeError

text \<open>
  Modelled from the spec: the module \<^verbatim>\<open>vsm\<close> with its pooling functions is not among
  the sources. This is the common shape of the three reductions of section 4.1: ``a
  sequence of N vectors of dimension D gives one vector of dimension D'', each
  component reduced along the token axis by \<open>f\<close>. A record that stands for no tensor is
  answered with \<open>DimensionMismatch\<close> (section 7: differing dimensions are checked for).
\<close>

definition pool_elementwise :: "(scalar list \<Rightarrow> scalar) \<Rightarrow> seqrep \<Rightarrow> error + vec" where
  "pool_elementwise f r =
     (if \<not> is_tensor r then Inl DimensionMismatch
      else Inr (map (\<lambda>j. f (column (rows r) j)) [0..<width r]))"

text \<open>
  Modelled from the spec: \<^verbatim>\<open>vsm.mean_pooling\<close>, ``elementwise average across the N
  vectors''. For \<open>N = 0\<close> the notebook's own description of the function decides, not
  the specification: ``The function \<^verbatim>\<open>vsm.mean_pooling\<close> is simple \<^verbatim>\<open>torch.mean\<close> with
  \<^verbatim>\<open>axis=1\<close>'', and the mean along an empty axis is a vector of \<open>D\<close> not-a-numbers.
\<close>

definition mean_pooling :: "seqrep \<Rightarrow> error + vec" where
  "mean_pooling r = pool_elementwise mean_of r"

text \<open>
  Modelled from the spec: \<^verbatim>\<open>vsm.max_pooling\<close> and \<^verbatim>\<open>vsm.min_pooling\<close>, ``elementwise
  max/min across the N vectors''; ``N=0 is invalid input -- fails with an InvalidInput
  error''. The notebook says nothing more about these two.
\<close>

definition max_pooling :: "seqrep \<Rightarrow> error + vec" where
  "max_pooling r =
     (if rows r = [] then Inl InvalidInput
      else pool_elementwise (\<lambda>xs. fold scalar_max (tl xs) (hd xs)) r)"

definition min_pooling :: "seqrep \<Rightarrow> error + vec" where
  "min_pooling r =
     (if rows r = [] then Inl InvalidInput
      else pool_elementwise (\<lambda>xs. fold scalar_min (tl xs) (hd xs)) r)"

text \<open>
  Modelled from the spec: \<^verbatim>\<open>vsm.last_pooling\<close>, ``returns the final (Nth) vector
  unchanged'' (the notebook: ``representation for the final token''); no vectors are
  combined; ``N=0 is invalid input''.
\<close>

definition last_pooling :: "seqrep \<Rightarrow> error + vec" where
  "last_pooling r = (if rows r = [] then Inl InvalidInput else Inr (last (rows r)))"

section \<open>The aggregated approach\<close>

text \<open>
  The notebook computes the aggregated vector of one word:
  \<^verbatim>\<open>
  vocab_ids = {w: vsm.hf_encode(w, bert_tokenizer)[0] for w in vocab}
  corpus_ids = [vsm.hf_encode(text, bert_tokenizer) for text in corpus]
  corpus_reps = [vsm.hf_represent(ids, bert_model, layer=1) for ids in corpus_ids]
  sailing = vocab_ids['sailing']

  sailing_reps = []

  for ids, reps in zip(corpus_ids, corpus_reps):
      offsets = find_sublist_indices(sailing, ids.squeeze(0))
      for (start, end) in offsets:
          pooled = vsm.mean_pooling(reps[:, start: end])
          sailing_reps.append(pooled)

  sailing_rep = torch.mean(torch.cat(sailing_reps), axis=0).squeeze(0)
  \<close>
  The token ids are tensors: the notebook records \<^verbatim>\<open>tensor([[17022]])\<close> as a value of
  \<^verbatim>\<open>vsm.hf_encode\<close>, of shape \<^verbatim>\<open>[1, T]\<close>. So \<open>sailing\<close> and \<^verbatim>\<open>ids.squeeze(0)\<close> are
  tensors of one axis, and \<open>find_sublist_indices\<close> runs on tensors here, not on lists. A
  tensor of one axis is the list of its elements; \<^verbatim>\<open>len\<close> and slicing are those of the
  list. The comparison and the \<^verbatim>\<open>if\<close> are not.
\<close>

text \<open>
  \<^verbatim>\<open>a == b\<close> on tensors of one axis compares element by element and gives a tensor of
  truth values. A tensor of a single element is broadcast against the other; any other
  difference of sizes raises.
\<close>

definition tensor_eq :: "'a list \<Rightarrow> 'a list \<Rightarrow> error + bool list" where
  "tensor_eq a b =
     (if length a = length b then Inr (map2 (=) a b)
      else if length a = 1 then Inr (map (\<lambda>y. hd a = y) b)
      else if length b = 1 then Inr (map (\<lambda>x. x = hd b) a)
      else Inl RuntimeError)"

text \<open>
  The truth value \<^verbatim>\<open>if\<close> asks of a tensor: that of its single element. A tensor of
  no element or of more than one has none, and the library raises \<^verbatim>\<open>RuntimeError\<close>.
\<close>

fun tensor_bool :: "bool list \<Rightarrow> error + bool" where
  "tensor_bool [b] = Inr b"
| "tensor_bool bs = Inl RuntimeError"

text \<open>
  The loop of \<open>find_sublist_indices\<close> again, on tensors: the same statements, where the
  test of the \<^verbatim>\<open>if\<close> may raise.
\<close>

fun find_loop_tensors ::
  "'a list \<Rightarrow> 'a list \<Rightarrow> nat \<Rightarrow> nat list \<Rightarrow> (nat \<times> nat) list \<Rightarrow> error + (nat \<times> nat) list"
where
  "find_loop_tensors sublist mainlist len [] indices = Inr indices"
| "find_loop_tensors sublist mainlist len (i # rest) indices =
     (case tensor_eq (slice mainlist i (i + len)) sublist of
        Inl err \<Rightarrow> Inl err
      | Inr eqs \<Rightarrow>
          (case tensor_bool eqs of
             Inl err \<Rightarrow> Inl err
           | Inr b \<Rightarrow>
               find_loop_tensors sublist mainlist len rest
                 (if b then indices @ [(i, i + len)] else indices)))"

definition find_sublist_indices_tensors ::
  "'a list \<Rightarrow> 'a list \<Rightarrow> error + (nat \<times> nat) list"
where
  "find_sublist_indices_tensors sublist mainlist =
     (let len = length sublist
      in find_loop_tensors sublist mainlist len
           (range0 (int (length mainlist) - int len + 1)) [])"

text \<open>
  The inner loop, over the spans found in one text. An exception ends the whole
  computation.
\<close>

fun offsets_loop :: "seqrep \<Rightarrow> (nat \<times> nat) list \<Rightarrow> vec list \<Rightarrow> error + vec list" where
  "offsets_loop reps [] sailing_reps = Inr sailing_reps"
| "offsets_loop reps ((start, stop) # offsets) sailing_reps =
     (case mean_pooling (slice_tokens reps start stop) of
        Inl err \<Rightarrow> Inl err
      | Inr pooled \<Rightarrow> offsets_loop reps offsets (sailing_reps @ [pooled]))"

text \<open>The outer loop, over the texts of the corpus paired with their representations.\<close>

fun corpus_loop ::
  "'a list \<Rightarrow> ('a list \<times> seqrep) list \<Rightarrow> vec list \<Rightarrow> error + vec list"
where
  "corpus_loop sailing [] sailing_reps = Inr sailing_reps"
| "corpus_loop sailing ((ids, reps) # rest) sailing_reps =
     (case find_sublist_indices_tensors sailing ids of
        Inl err \<Rightarrow> Inl err
      | Inr offsets \<Rightarrow>
          (case offsets_loop reps offsets sailing_reps of
             Inl err \<Rightarrow> Inl err
           | Inr sailing_reps' \<Rightarrow> corpus_loop sailing rest sailing_reps'))"

text \<open>
  \<^verbatim>\<open>torch.cat\<close> stacks the pooled vectors (each of shape \<^verbatim>\<open>[1, D]\<close>) into a matrix of
  one row per vector. The library raises \<^verbatim>\<open>RuntimeError\<close> on an empty list of tensors,
  and on tensors whose sizes differ outside the axis of concatenation.
\<close>

definition torch_cat :: "vec list \<Rightarrow> error + vec list" where
  "torch_cat tensors =
     (if tensors = [] then Inl RuntimeError
      else if \<not> list_all (\<lambda>v. length v = length (hd tensors)) tensors then Inl RuntimeError
      else Inr tensors)"

text \<open>
  \<^verbatim>\<open>torch.mean(m, axis=0)\<close> of a matrix of \<open>K \<ge> 1\<close> rows: the mean of each column.
  The first equation is never reached from \<open>sailing_rep\<close>, where \<^verbatim>\<open>torch.cat\<close> has
  raised before.
\<close>

fun torch_mean_axis0 :: "vec list \<Rightarrow> vec" where
  "torch_mean_axis0 [] = []"
| "torch_mean_axis0 (row # others) =
     map (\<lambda>j. mean_of (column (row # others) j)) [0..<length row]"

text \<open>
  The value of the cell is a tensor of no axis (a single number) or of one axis.
  \<^verbatim>\<open>.squeeze(0)\<close> removes the first axis when its size is one: a vector of dimension
  one becomes a single number, any other vector stays as it is.
\<close>

datatype tensor = Tensor0 scalar | Tensor1 vec

fun squeeze0 :: "vec \<Rightarrow> tensor" where
  "squeeze0 [x] = Tensor0 x"
| "squeeze0 v = Tensor1 v"

definition sailing_rep :: "'a list \<Rightarrow> 'a list list \<Rightarrow> seqrep list \<Rightarrow> error + tensor" where
  "sailing_rep sailing corpus_ids corpus_reps =
     (case corpus_loop sailing (zip corpus_ids corpus_reps) [] of
        Inl err \<Rightarrow> Inl err
      | Inr sailing_reps \<Rightarrow>
          (case torch_cat sailing_reps of
             Inl err \<Rightarrow> Inl err
           | Inr m \<Rightarrow> Inr (squeeze0 (torch_mean_axis0 m))))"

subsection \<open>The aggregated approach as the specification words it\<close>

text \<open>
  One occurrence vector per occurrence span: the pooling function applied to the slice
  of the text's sequence representation over the span; the texts in corpus order, the
  spans of a text in the order of their start positions.
\<close>

definition spec_occurrence_vectors ::
  "'a list \<Rightarrow> 'a list list \<Rightarrow> seqrep list \<Rightarrow> (error + vec) list"
where
  "spec_occurrence_vectors target corpus_ids corpus_reps =
     concat (map (\<lambda>(ids, reps).
                    map (\<lambda>(start, stop). mean_pooling (slice_tokens reps start stop))
                      (spec_spans target ids))
               (zip corpus_ids corpus_reps))"

text \<open>The results of a list of steps: the first failure, or all the values.\<close>

fun collect :: "(error + 'b) list \<Rightarrow> error + 'b list" where
  "collect [] = Inr []"
| "collect (Inl err # rs) = Inl err"
| "collect (Inr v # rs) = (case collect rs of Inl err \<Rightarrow> Inl err | Inr vs \<Rightarrow> Inr (v # vs))"

text \<open>
  The word's final vector, for hidden representations of dimension \<open>D\<close>: the pooling
  function applied a second time, across the collected occurrence vectors.
\<close>

definition spec_aggregated_vector ::
  "nat \<Rightarrow> 'a list \<Rightarrow> 'a list list \<Rightarrow> seqrep list \<Rightarrow> error + vec"
where
  "spec_aggregated_vector D target corpus_ids corpus_reps =
     (case collect (spec_occurrence_vectors target corpus_ids corpus_reps) of
        Inl err \<Rightarrow> Inl err
      | Inr occurrences \<Rightarrow> mean_pooling \<lparr>width = D, rows = occurrences\<rparr>)"

section \<open>Properties of the span locator\<close>

lemma find_loop_filter:
  "find_loop t h n is acc =
     acc @ map (\<lambda>i. (i, i + n)) (filter (\<lambda>i. slice h i (i + n) = t) is)"
  by (induction "is" arbitrary: acc) simp_all

lemma find_sublist_indices_filter:
  "find_sublist_indices t h =
     map (\<lambda>i. (i, i + length t))
       (filter (\<lambda>i. slice h i (i + length t) = t) [0..<Suc (length h) - length t])"
proof -
  have "nat (int (length h) - int (length t) + 1) = Suc (length h) - length t"
    by linarith
  then show ?thesis
    by (simp add: find_sublist_indices_def Let_def range0_def find_loop_filter)
qed

lemma map_nat_upto: "map nat [0 .. int n] = [0..<Suc n]"
proof (induction n)
  case 0
  show ?case by (simp add: upto.simps)
next
  case (Suc n)
  have "[0 .. int (Suc n)] = [0 .. int n] @ [int (Suc n)]"
    using upto_rec2 [of 0 "int (Suc n)"] by simp
  with Suc show ?case by simp
qed

lemma start_positions_upt: "start_positions t h = [0..<Suc (length h) - length t]"
proof (cases "length t \<le> length h")
  case True
  then have "int (length h) - int (length t) = int (length h - length t)"
    by simp
  then have "start_positions t h = [0..<Suc (length h - length t)]"
    by (simp only: start_positions_def map_nat_upto)
  with True show ?thesis by (simp add: Suc_diff_le)
next
  case False
  then have "int (length h) - int (length t) < 0" by simp
  then have "[0 .. int (length h) - int (length t)] = []" by simp
  with False show ?thesis by (simp add: start_positions_def)
qed

lemma slice_eq_iff_occurs_at:
  assumes "i + length t \<le> length h"
  shows "slice h i (i + length t) = t \<longleftrightarrow> occurs_at t h i"
proof -
  have len: "length (slice h i (i + length t)) = length t"
    using assms by (simp add: slice_def)
  have nth: "slice h i (i + length t) ! k = h ! (i + k)" if "k < length t" for k
    using that assms by (simp add: slice_def)
  show ?thesis
    using assms len nth by (auto simp: occurs_at_def list_eq_iff_nth_eq)
qed

lemma slice_eq_imp_fits:
  assumes "slice h i (i + length t) = t"
  shows "i + length t \<le> length h \<or> t = []"
proof -
  have "length (slice h i (i + length t)) = min (length t) (length h - i)"
    by (simp add: slice_def)
  with assms have "length t = min (length t) (length h - i)" by simp
  then have "length t \<le> length h - i" by linarith
  then show ?thesis by (cases t) auto
qed

lemma find_sublist_indices_spec: "find_sublist_indices t h = spec_spans t h"
proof -
  have "filter (\<lambda>i. slice h i (i + length t) = t) [0..<Suc (length h) - length t]
      = filter (occurs_at t h) [0..<Suc (length h) - length t]"
  proof (rule filter_cong [OF refl])
    fix i assume "i \<in> set [0..<Suc (length h) - length t]"
    then have "i + length t \<le> length h" by auto
    then show "(slice h i (i + length t) = t) = occurs_at t h i"
      by (rule slice_eq_iff_occurs_at)
  qed
  then show ?thesis
    by (simp add: find_sublist_indices_filter spec_spans_def start_positions_upt)
qed

text \<open>
  Claim C1. For a non-empty target \<open>t\<close> and any haystack \<open>h\<close>, the span locator returns
  exactly the pairs \<open>(i, i + len(t))\<close> for the start positions \<open>i\<close> from \<open>0\<close> through
  \<open>len(h) - len(t)\<close> at which the haystack carries the target element by element, in
  increasing order of \<open>i\<close>, and no other pair.
\<close>

theorem find_sublist_indices_exact:
  assumes "t \<noteq> []"
  shows "find_sublist_indices t h
           = map (\<lambda>i. (i, i + length t)) (filter (occurs_at t h) (start_positions t h))
         \<and> sorted_wrt (<) (map fst (find_sublist_indices t h))"
proof
  show "find_sublist_indices t h
          = map (\<lambda>i. (i, i + length t)) (filter (occurs_at t h) (start_positions t h))"
    by (simp add: find_sublist_indices_spec spec_spans_def)
next
  have "map fst (find_sublist_indices t h)
          = filter (occurs_at t h) [0..<Suc (length h) - length t]"
    by (simp add: find_sublist_indices_spec spec_spans_def start_positions_upt comp_def)
  moreover have "sorted_wrt (<) (filter (occurs_at t h) [0..<Suc (length h) - length t])"
    by (rule sorted_wrt_filter) simp
  ultimately show "sorted_wrt (<) (map fst (find_sublist_indices t h))"
    by simp
qed

theorem find_sublist_indices_exact_witness:
  "[1, 2 :: int] \<noteq> []
   \<and> find_sublist_indices [1, 2 :: int] [0, 1, 2, 1, 2, 2]
       = map (\<lambda>i. (i, i + length [1, 2 :: int]))
           (filter (occurs_at [1, 2 :: int] [0, 1, 2, 1, 2, 2])
              (start_positions [1, 2 :: int] [0, 1, 2, 1, 2, 2 :: int]))
   \<and> sorted_wrt (<) (map fst (find_sublist_indices [1, 2 :: int] [0, 1, 2, 1, 2, 2]))
   \<and> find_sublist_indices [1, 2 :: int] [0, 1, 2, 1, 2, 2] = [(1, 3), (3, 5)]"
proof -
  have ne: "[1, 2 :: int] \<noteq> []" by simp
  have val: "find_sublist_indices [1, 2 :: int] [0, 1, 2, 1, 2, 2] = [(1, 3), (3, 5)]"
    by code_simp
  from find_sublist_indices_exact [OF ne, of "[0, 1, 2, 1, 2, 2]"] ne val
  show ?thesis by blast
qed

lemma matching_span_reported:
  assumes "t \<noteq> []" and "slice h i (i + length t) = t"
  shows "(i, i + length t) \<in> set (find_sublist_indices t h)"
proof -
  from slice_eq_imp_fits [OF assms(2)] assms(1) have "i + length t \<le> length h"
    by simp
  then have "i \<in> set [0..<Suc (length h) - length t]"
    by auto
  with assms(2)
  have "i \<in> set (filter (\<lambda>i. slice h i (i + length t) = t) [0..<Suc (length h) - length t])"
    by simp
  then have "(i, i + length t) \<in> (\<lambda>i. (i, i + length t)) `
      set (filter (\<lambda>i. slice h i (i + length t) = t) [0..<Suc (length h) - length t])"
    by (rule imageI)
  then show ?thesis
    by (simp only: find_sublist_indices_filter set_map)
qed

lemma upt_split_two:
  assumes "i < j" and "j < m"
  shows "[0..<m] = [0..<i] @ i # [Suc i..<j] @ j # [Suc j..<m]"
proof -
  have "[0..<m] = [0..<i] @ [i..<m]"
    using assms by (metis le_add_diff_inverse less_imp_le_nat less_trans upt_add_eq_append zero_le)
  also have "[i..<m] = i # [Suc i..<m]"
    using assms by (simp add: upt_conv_Cons)
  also have "[Suc i..<m] = [Suc i..<j] @ [j..<m]"
    using assms by (metis Suc_leI le_add_diff_inverse less_imp_le_nat upt_add_eq_append)
  also have "[j..<m] = j # [Suc j..<m]"
    using assms by (simp add: upt_conv_Cons)
  finally show ?thesis by simp
qed

lemma both_spans_in_order:
  assumes "t \<noteq> []"
    and "i < j"
    and "slice h i (i + length t) = t"
    and "slice h j (j + length t) = t"
  shows "\<exists>xs ys zs. find_sublist_indices t h
            = xs @ (i, i + length t) # ys @ (j, j + length t) # zs"
proof -
  let ?P = "\<lambda>i. slice h i (i + length t) = t"
  let ?f = "\<lambda>i. (i, i + length t)"
  let ?m = "Suc (length h) - length t"
  from slice_eq_imp_fits [OF assms(4)] assms(1) have "j < ?m" by auto
  from upt_split_two [OF assms(2) this]
  have "find_sublist_indices t h
      = map ?f (filter ?P [0..<i]) @ ?f i # map ?f (filter ?P [Suc i..<j])
          @ ?f j # map ?f (filter ?P [Suc j..<?m])"
    using assms(3,4) by (simp add: find_sublist_indices_filter)
  then show ?thesis by blast
qed

text \<open>
  Claim C6. The span locator does not skip ahead after a match: for a non-empty target
  \<open>t\<close>, when the positions \<open>i < j < i + len(t)\<close> both carry the target
  (\<open>h[i : i+len(t)] = t\<close> and \<open>h[j : j+len(t)] = t\<close>), both spans are in the returned
  sequence, as two entries, the span of \<open>i\<close> before the span of \<open>j\<close>. Overlapping
  matches are kept.
\<close>

theorem overlapping_matches_preserved:
  assumes "t \<noteq> []"
    and "i < j" and "j < i + length t"
    and "slice h i (i + length t) = t"
    and "slice h j (j + length t) = t"
  shows "(i, i + length t) \<in> set (find_sublist_indices t h)
         \<and> (j, j + length t) \<in> set (find_sublist_indices t h)
         \<and> (\<exists>xs ys zs. find_sublist_indices t h
                = xs @ (i, i + length t) # ys @ (j, j + length t) # zs)"
  using assms(1,4,5) both_spans_in_order [OF assms(1,2,4,5)]
  by (simp add: matching_span_reported)

theorem overlapping_matches_preserved_witness:
  "[7, 7 :: int] \<noteq> [] \<and> (0 :: nat) < 1 \<and> (1 :: nat) < 0 + length [7, 7 :: int]
   \<and> slice [7, 7, 7 :: int] 0 (0 + length [7, 7 :: int]) = [7, 7]
   \<and> slice [7, 7, 7 :: int] 1 (1 + length [7, 7 :: int]) = [7, 7]
   \<and> (0, 0 + length [7, 7 :: int]) \<in> set (find_sublist_indices [7, 7 :: int] [7, 7, 7])
   \<and> (1, 1 + length [7, 7 :: int]) \<in> set (find_sublist_indices [7, 7 :: int] [7, 7, 7])
   \<and> (\<exists>xs ys zs. find_sublist_indices [7, 7 :: int] [7, 7, 7]
          = xs @ (0, 0 + length [7, 7 :: int]) # ys @ (1, 1 + length [7, 7 :: int]) # zs)
   \<and> find_sublist_indices [7, 7 :: int] [7, 7, 7] = [(0, 2), (1, 3)]"
proof -
  have h1: "[7, 7 :: int] \<noteq> []" by simp
  have h2: "(0 :: nat) < 1" by simp
  have h3: "(1 :: nat) < 0 + length [7, 7 :: int]" by simp
  have h4: "slice [7, 7, 7 :: int] 0 (0 + length [7, 7 :: int]) = [7, 7]"
    by (simp add: slice_def)
  have h5: "slice [7, 7, 7 :: int] 1 (1 + length [7, 7 :: int]) = [7, 7]"
    by (simp add: slice_def)
  have val: "find_sublist_indices [7, 7 :: int] [7, 7, 7] = [(0, 2), (1, 3)]"
    by code_simp
  from overlapping_matches_preserved [OF h1 h2 h3 h4 h5] h1 h2 h3 h4 h5 val
  show ?thesis by blast
qed

text \<open>
  Claim C7. The call \<^verbatim>\<open>find_sublist_indices([1,2], [1,2,1,2])\<close> returns exactly
  \<^verbatim>\<open>[(0,2), (2,4)]\<close>: both adjacent repeats, in order.
\<close>

theorem find_sublist_indices_adjacent_repeats:
  "find_sublist_indices [1, 2 :: int] [1, 2, 1, 2] = [(0, 2), (2, 4)]"
  by code_simp

text \<open>
  Claim C8. The notebook's example call
  \<^verbatim>\<open>find_sublist_indices([1,2], [1, 2, 3, 0, 1, 2, 3])\<close> returns exactly
  \<^verbatim>\<open>[(0, 2), (4, 6)]\<close>, the output the notebook records.
\<close>

theorem find_sublist_indices_notebook_example:
  "find_sublist_indices [1, 2 :: int] [1, 2, 3, 0, 1, 2, 3] = [(0, 2), (4, 6)]"
  by code_simp

text \<open>
  Claim C9. A target longer than the haystack gives the empty sequence: the range of
  the loop is empty.
\<close>

theorem find_sublist_indices_target_too_long:
  assumes "length t > length h"
  shows "find_sublist_indices t h = []"
proof -
  from assms have "Suc (length h) - length t = 0" by simp
  then show ?thesis by (simp add: find_sublist_indices_filter)
qed

theorem find_sublist_indices_target_too_long_witness:
  "length [1, 2, 3 :: int] > length [1, 2 :: int]
   \<and> find_sublist_indices [1, 2, 3 :: int] [1, 2] = []"
proof -
  have h: "length [1, 2, 3 :: int] > length [1, 2 :: int]" by simp
  from find_sublist_indices_target_too_long [OF h] h show ?thesis by blast
qed

text \<open>
  Claim C10. With the empty target the function still returns, and returns the
  zero-width span \<open>(i, i)\<close> for every \<open>i\<close> from \<open>0\<close> to \<open>len(mainlist)\<close> inclusive, in
  increasing order: \<open>len(mainlist) + 1\<close> spans. (The model has no failing branch: on
  lists, \<^verbatim>\<open>len\<close>, slicing, \<^verbatim>\<open>==\<close> and \<^verbatim>\<open>append\<close> do not raise.)
\<close>

theorem find_sublist_indices_empty_target:
  "find_sublist_indices [] mainlist = map (\<lambda>i. (i, i)) [0..<Suc (length mainlist)]
   \<and> length (find_sublist_indices [] mainlist) = length mainlist + 1"
  by (simp add: find_sublist_indices_filter slice_def)

section \<open>Properties of the pooling functions\<close>

lemma mean_of_single: "mean_of [x] = x"
  by (cases x) (simp_all add: mean_of_def scalar_sum_def)

text \<open>
  Claim C4. For every single vector \<open>v\<close>, of whatever dimension, each of the four
  pooling functions applied to the sequence \<open>[v]\<close> of length one returns \<open>v\<close>
  unchanged.
\<close>

theorem pooling_singleton_identity:
  "mean_pooling \<lparr>width = length v, rows = [v]\<rparr> = Inr v
   \<and> max_pooling \<lparr>width = length v, rows = [v]\<rparr> = Inr v
   \<and> min_pooling \<lparr>width = length v, rows = [v]\<rparr> = Inr v
   \<and> last_pooling \<lparr>width = length v, rows = [v]\<rparr> = Inr v"
  by (simp add: mean_pooling_def max_pooling_def min_pooling_def last_pooling_def
      pool_elementwise_def is_tensor_def column_def mean_of_single map_nth)



section \<open>Properties of the span locator on tensors\<close>

text \<open>
  On a target of a single token the comparison has a single element, and the loop on
  tensors does what the loop on lists does. On any other target, the first test of the
  \<^verbatim>\<open>if\<close> raises; the loop is not entered only when the target is longer than the text.
\<close>

lemma tensor_bool_not_single: "length bs \<noteq> 1 \<Longrightarrow> tensor_bool bs = Inl RuntimeError"
  by (cases bs rule: tensor_bool.cases) simp_all

lemma slice_one: "i < length h \<Longrightarrow> slice h i (Suc i) = [h ! i]"
  by (simp add: slice_def take_Suc hd_drop_conv_nth)

lemma find_loop_tensors_single:
  assumes "\<forall>i \<in> set is. i < length h"
  shows "find_loop_tensors [x] h (Suc 0) is acc = Inr (find_loop [x] h (Suc 0) is acc)"
  using assms
proof (induction "is" arbitrary: acc)
  case Nil
  show ?case by simp
next
  case (Cons i "is")
  from Cons.prems have "i < length h" and rest: "\<forall>i \<in> set is. i < length h"
    by simp_all
  then have sl: "slice h i (Suc i) = [h ! i]"
    by (simp add: slice_one)
  show ?case
    by (simp add: sl tensor_eq_def Cons.IH [OF rest])
qed

lemma find_sublist_indices_tensors_single:
  assumes "length t = 1"
  shows "find_sublist_indices_tensors t h = Inr (find_sublist_indices t h)"
proof -
  from assms obtain x where t: "t = [x]" by (cases t) auto
  have "\<forall>i \<in> set (range0 (int (length h) - int (length t) + 1)). i < length h"
    by (simp add: t range0_def)
  from find_loop_tensors_single [OF this, of x] show ?thesis
    by (simp add: t find_sublist_indices_tensors_def find_sublist_indices_def)
qed

lemma find_sublist_indices_tensors_cases:
  "find_sublist_indices_tensors t h = Inl RuntimeError
   \<or> find_sublist_indices_tensors t h = Inr (find_sublist_indices t h)"
proof (cases "length t = 1")
  case True
  then show ?thesis by (simp add: find_sublist_indices_tensors_single)
next
  case False
  show ?thesis
  proof (cases "length t \<le> length h")
    case True
    then have "nat (int (length h) - int (length t) + 1) = Suc (length h - length t)"
      by linarith
    then have r: "range0 (int (length h) - int (length t) + 1) = 0 # [1..<Suc (length h - length t)]"
      by (simp add: range0_def upt_conv_Cons)
    have "length (slice h 0 (0 + length t)) = length t"
      using True by (simp add: slice_def)
    then have "tensor_eq (slice h 0 (0 + length t)) t = Inr (map2 (=) (slice h 0 (0 + length t)) t)"
      by (simp add: tensor_eq_def)
    moreover have "tensor_bool (map2 (=) (slice h 0 (0 + length t)) t) = Inl RuntimeError"
      using False True by (intro tensor_bool_not_single) (simp add: slice_def)
    ultimately have "find_sublist_indices_tensors t h = Inl RuntimeError"
      by (simp add: find_sublist_indices_tensors_def Let_def r)
    then show ?thesis by simp
  next
    case False
    then have "range0 (int (length h) - int (length t) + 1) = []"
      by (simp add: range0_def)
    then show ?thesis
      by (simp add: find_sublist_indices_tensors_def find_sublist_indices_def)
  qed
qed

section \<open>Properties of the aggregated approach\<close>

text \<open>
  The two loops collect the occurrence vectors in order, and stop at the first
  failure.
\<close>

lemma collect_append:
  "collect (xs @ ys) =
     (case collect xs of Inl err \<Rightarrow> Inl err
      | Inr a \<Rightarrow> (case collect ys of Inl err \<Rightarrow> Inl err | Inr b \<Rightarrow> Inr (a @ b)))"
  by (induction xs rule: collect.induct) (simp_all split: sum.splits)

lemma collect_Inr: "collect xs = Inr vs \<Longrightarrow> xs = map Inr vs"
  by (induction xs arbitrary: vs rule: collect.induct) (auto split: sum.splits)

lemma offsets_loop_collect:
  "offsets_loop reps offs acc =
     (case collect (map (\<lambda>(start, stop). mean_pooling (slice_tokens reps start stop)) offs) of
        Inl err \<Rightarrow> Inl err
      | Inr vs \<Rightarrow> Inr (acc @ vs))"
proof (induction offs arbitrary: acc)
  case Nil
  show ?case by simp
next
  case (Cons p offs)
  obtain s e where p: "p = (s, e)" by (cases p)
  show ?case
    by (cases "mean_pooling (slice_tokens reps s e)")
      (simp_all add: p Cons.IH split: sum.splits)
qed

lemma corpus_loop_collect:
  assumes "length t = 1"
  shows "corpus_loop t zs acc =
     (case collect (concat (map (\<lambda>(ids, reps).
                    map (\<lambda>(start, stop). mean_pooling (slice_tokens reps start stop))
                      (spec_spans t ids)) zs)) of
        Inl err \<Rightarrow> Inl err
      | Inr vs \<Rightarrow> Inr (acc @ vs))"
proof (induction zs arbitrary: acc)
  case Nil
  show ?case by simp
next
  case (Cons z zs)
  obtain ids reps where z: "z = (ids, reps)" by (cases z)
  show ?case
    by (simp add: z Cons.IH offsets_loop_collect collect_append
        find_sublist_indices_tensors_single [OF assms] find_sublist_indices_spec
        split: sum.splits)
qed

lemma corpus_loop_no_occurrence:
  assumes "\<forall>z \<in> set zs. find_sublist_indices t (fst z) = []"
  shows "corpus_loop t zs acc = Inl RuntimeError \<or> corpus_loop t zs acc = Inr acc"
  using assms
proof (induction zs)
  case Nil
  show ?case by simp
next
  case (Cons z zs)
  obtain ids reps where z: "z = (ids, reps)" by (cases z)
  from Cons.prems have none: "find_sublist_indices t ids = []"
    and rest: "\<forall>z \<in> set zs. find_sublist_indices t (fst z) = []"
    by (simp_all add: z)
  from find_sublist_indices_tensors_cases [of t ids] show ?case
  proof
    assume "find_sublist_indices_tensors t ids = Inl RuntimeError"
    then show ?thesis by (simp add: z)
  next
    assume "find_sublist_indices_tensors t ids = Inr (find_sublist_indices t ids)"
    with none Cons.IH [OF rest] show ?thesis by (simp add: z)
  qed
qed

lemma mean_pooling_length:
  assumes "mean_pooling r = Inr v"
  shows "length v = width r"
  using assms by (auto simp: mean_pooling_def pool_elementwise_def split: if_splits)

lemma occurrence_vector_dimension:
  assumes dims: "\<forall>reps \<in> set corpus_reps. width reps = D"
    and "Inr v \<in> set (spec_occurrence_vectors t corpus_ids corpus_reps)"
  shows "length v = D"
proof -
  from assms(2) obtain ids reps s e where
    z: "(ids, reps) \<in> set (zip corpus_ids corpus_reps)"
    and v: "mean_pooling (slice_tokens reps s e) = Inr v"
    by (auto simp: spec_occurrence_vectors_def)
  from z have "reps \<in> set corpus_reps" by (rule set_zip_rightD)
  with dims mean_pooling_length [OF v] show ?thesis
    by (simp add: slice_tokens_def)
qed

lemma cat_mean_is_mean_pooling:
  assumes "vs \<noteq> []" and "\<forall>v \<in> set vs. length v = D"
  shows "(case torch_cat vs of Inl err \<Rightarrow> Inl err | Inr m \<Rightarrow> Inr (torch_mean_axis0 m))
         = mean_pooling \<lparr>width = D, rows = vs\<rparr>"
proof -
  from assms(1) obtain r rs where vs: "vs = r # rs" by (cases vs) auto
  from assms(2) have "length r = D" and "\<forall>v \<in> set rs. length v = D"
    by (simp_all add: vs)
  then show ?thesis
    by (simp add: vs torch_cat_def mean_pooling_def pool_elementwise_def is_tensor_def
        list_all_iff)
qed

lemma single_token_pooled_twice:
  assumes single: "length sailing = 1"
    and dims: "\<forall>reps \<in> set corpus_reps. width reps = D"
    and len: "length corpus_ids = length corpus_reps"
    and occ: "\<exists>ids \<in> set corpus_ids. find_sublist_indices sailing ids \<noteq> []"
  shows "sailing_rep sailing corpus_ids corpus_reps
         = map_sum id squeeze0 (spec_aggregated_vector D sailing corpus_ids corpus_reps)"
proof -
  let ?occs = "spec_occurrence_vectors sailing corpus_ids corpus_reps"
  have loop: "corpus_loop sailing (zip corpus_ids corpus_reps) [] = collect ?occs"
    by (simp add: corpus_loop_collect [OF single] spec_occurrence_vectors_def
        split: sum.splits)
  from occ obtain ids where ids: "ids \<in> set corpus_ids" "spec_spans sailing ids \<noteq> []"
    by (auto simp: find_sublist_indices_spec)
  from in_set_impl_in_set_zip1 [OF len ids(1)]
  obtain reps where "(ids, reps) \<in> set (zip corpus_ids corpus_reps)"
    by blast
  with ids(2) have ne: "?occs \<noteq> []"
    by (auto simp: spec_occurrence_vectors_def intro!: bexI [of _ "(ids, reps)"])
  show ?thesis
  proof (cases "collect ?occs")
    case (Inl err)
    then show ?thesis by (simp add: sailing_rep_def spec_aggregated_vector_def loop)
  next
    case (Inr vs)
    then have occs: "?occs = map Inr vs" by (rule collect_Inr)
    with ne have vs: "vs \<noteq> []" by auto
    have "\<forall>v \<in> set vs. length v = D"
      using occurrence_vector_dimension [OF dims] occs by (metis image_eqI set_map)
    from cat_mean_is_mean_pooling [OF vs this]
    have "mean_pooling \<lparr>width = D, rows = vs\<rparr>
          = (case torch_cat vs of Inl err \<Rightarrow> Inl err | Inr m \<Rightarrow> Inr (torch_mean_axis0 m))"
      by simp
    then show ?thesis
      by (simp add: sailing_rep_def spec_aggregated_vector_def loop Inr split: sum.splits)
  qed
qed

text \<open>
  Claim C2. When the word's token ids occur at least once in the corpus, the word's
  final vector should be the pooling function applied a second time across the
  occurrence vectors, each the pooling function applied to the slice of the text's
  sequence representation over the occurrence span. For a word of a single token the
  cell computes just that (\<open>single_token_pooled_twice\<close> above). For a word of two
  tokens it does not: for the word \<open>[5, 2]\<close>, which occurs in the text \<open>[1, 5, 2]\<close> at
  the span \<open>(1, 3)\<close>, the claim gives the mean \<open>[4, 5]\<close> of the token vectors
  \<open>[3, 4]\<close> and \<open>[5, 6]\<close>, while the cell raises at the first \<^verbatim>\<open>if\<close>, whose test is a
  tensor of two truth values.
\<close>

theorem multi_token_target_raises:
  "sailing_rep [5, 2 :: int] [[1, 5, 2]]
      [\<lparr>width = 2, rows = [[Num 1, Num 2], [Num 3, Num 4], [Num 5, Num 6]]\<rparr>]
     = Inl RuntimeError
   \<and> spec_aggregated_vector 2 [5, 2 :: int] [[1, 5, 2]]
      [\<lparr>width = 2, rows = [[Num 1, Num 2], [Num 3, Num 4], [Num 5, Num 6]]\<rparr>]
     = Inr [Num 4, Num 5]"
proof -
  have code: "sailing_rep [5, 2 :: int] [[1, 5, 2]]
      [\<lparr>width = 2, rows = [[Num 1, Num 2], [Num 3, Num 4], [Num 5, Num 6]]\<rparr>]
     = Inl RuntimeError"
    by code_simp
  have spans: "spec_spans [5, 2 :: int] [1, 5, 2] = [(Suc 0, 3)]"
    unfolding find_sublist_indices_spec [symmetric] by code_simp
  have first: "mean_pooling (slice_tokens
       \<lparr>width = 2, rows = [[Num 1, Num 2], [Num 3, Num 4], [Num 5, Num 6]]\<rparr> (Suc 0) 3)
     = Inr [Num 4, Num 5]"
    by code_simp
  have second: "mean_pooling \<lparr>width = 2, rows = [[Num 4, Num 5]]\<rparr> = Inr [Num 4, Num 5]"
    by code_simp
  have "spec_aggregated_vector 2 [5, 2 :: int] [[1, 5, 2]]
      [\<lparr>width = 2, rows = [[Num 1, Num 2], [Num 3, Num 4], [Num 5, Num 6]]\<rparr>]
     = Inr [Num 4, Num 5]"
    by (simp add: spec_aggregated_vector_def spec_occurrence_vectors_def spans first second)
  with code show ?thesis by simp
qed

text \<open>
  Claim C3, as the code has it. When the word's token ids occur in no text of the
  corpus, the cell ends with an error: \<^verbatim>\<open>torch.cat\<close> raises on the empty list of
  occurrence vectors, unless the \<^verbatim>\<open>if\<close> of the span locator has raised before (a word
  of several tokens). No vector is produced, neither zero-filled nor of any other kind;
  but no row marked unrepresentable is produced either. The cell computes one word; the
  notebook has no table of rows and no build over a vocabulary to carry on.
\<close>

theorem zero_occurrences_raise:
  assumes "\<forall>ids \<in> set corpus_ids. find_sublist_indices sailing ids = []"
  shows "sailing_rep sailing corpus_ids corpus_reps = Inl RuntimeError"
proof -
  from assms have "\<forall>z \<in> set (zip corpus_ids corpus_reps). find_sublist_indices sailing (fst z) = []"
    by (auto dest: set_zip_leftD)
  from corpus_loop_no_occurrence [OF this, of "[]"] show ?thesis
    by (auto simp: sailing_rep_def torch_cat_def)
qed

theorem zero_occurrences_raise_witness:
  "list_all (\<lambda>ids. find_sublist_indices [9] ids = []) [[1, 5], [5 :: int]]
   \<and> sailing_rep [9 :: int] [[1, 5], [5]]
        [\<lparr>width = 2, rows = [[Num 1, Num 2], [Num 3, Num 4]]\<rparr>,
         \<lparr>width = 2, rows = [[Num 5, Num 8]]\<rparr>]
       = Inl RuntimeError"
proof -
  have h: "\<forall>ids \<in> set [[1, 5], [5 :: int]]. find_sublist_indices [9] ids = []"
    by code_simp
  then have h': "list_all (\<lambda>ids. find_sublist_indices [9] ids = []) [[1, 5], [5 :: int]]"
    by (simp only: list_all_iff)
  from zero_occurrences_raise [OF h] h' show ?thesis by blast
qed

text \<open>
  The claim C3 as stated asks for a run that completes with a row marked
  unrepresentable. For the word \<open>[7]\<close>, absent from the one text \<open>[1, 2, 3]\<close>, the cell
  does not complete: it raises.
\<close>

theorem zero_occurrences_counterexample:
  "sailing_rep [7 :: int] [[1, 2, 3]]
      [\<lparr>width = 2, rows = [[Num 1, Num 0], [Num 0, Num 1], [Num 1, Num 1]]\<rparr>]
     = Inl RuntimeError"
  by code_simp

end
